theory Spec2Isabelle
  imports Complex_Main "HOL-Library.Sublist"
begin

section \<open>Shared vocabulary\<close>

text \<open>
  Exceptions are values. Only exceptions derived from Python's \<open>Exception\<close> are
  modelled: they are what the handlers of the sources name. A function that can
  raise returns a sum, \<open>Inl\<close> carrying the exception together with the state the
  raise leaves behind (assignments made before a raise persist in Python).
\<close>

datatype exn =
    FileNotFoundError
  | TimeoutExpired
  | ValueError
  | IndexError
  | KeyError
  | TypeError
  | ZeroDivisionError
  | OtherError

datatype level = INFO | WARNING | ERROR

type_synonym log_line = "level \<times> string"

text \<open>\<open>os.path.basename\<close> on a POSIX path: the part after the last slash.\<close>

definition basename :: "string \<Rightarrow> string" where
  "basename p = rev (takeWhile (\<lambda>c. c \<noteq> CHR ''/'') (rev p))"

section \<open>video_player.py: class VideoPlayer\<close>

subsection \<open>The environment of a playback\<close>

text \<open>
  A \<open>subprocess.Popen\<close> handle, as far as the class observes it: whether \<open>poll()\<close>
  returns \<open>None\<close> (the process is still running), what a blocking \<open>wait()\<close> does,
  and what \<open>terminate()\<close> followed by \<open>wait(timeout=5)\<close> does. \<open>poll()\<close> and
  \<open>kill()\<close> on a child process do not raise.
\<close>

datatype wait_outcome = WaitReturns | WaitRaises

datatype terminate_outcome = ExitsInTime | WaitTimesOut | TerminateRaises

record process =
  program :: string
  poll_is_none :: bool
  on_wait :: wait_outcome
  on_terminate :: terminate_outcome

text \<open>
  \<open>subprocess.Popen(cmd)\<close>: the executable is absent (\<open>FileNotFoundError\<close>), the
  launch fails otherwise (any other \<open>Exception\<close>), or a handle is returned. The
  environment answers by the program name, the first word of the command; the
  other arguments of the command do not change what the class does and are left
  out.
\<close>

datatype popen_result = ExecutableMissing | LaunchFails | Launched process

text \<open>
  What the operating system, the clock and pygame supply to one call of
  \<open>play_video\<close>. Time is in seconds, idealised as a real number. \<open>start_time\<close> is
  the reading taken before the placeholder loop, \<open>now e k\<close> the reading at the head
  of its \<open>k\<close>-th iteration, \<open>esc_pressed e k\<close> whether that iteration's event queue
  holds an Escape key press, \<open>body_raises e k\<close> whether a pygame call of that
  iteration raises, and \<open>font_ok\<close> whether \<open>pygame.font.Font\<close> succeeds.
\<close>

record video_env =
  path_exists :: "string \<Rightarrow> bool"
  popen :: "string \<Rightarrow> popen_result"
  font_ok :: bool
  start_time :: real
  now :: "nat \<Rightarrow> real"
  esc_pressed :: "nat \<Rightarrow> bool"
  body_raises :: "nat \<Rightarrow> bool"

subsection \<open>The object and the log\<close>

text \<open>
  The two fields of \<open>VideoPlayer\<close> that the methods write, and the lines written to
  the module's logger (the text of a caught exception is left out of a line).
\<close>

record video_player =
  is_playing :: bool
  current_process :: "process option"
  logged :: "log_line list"

type_synonym outcome = "exn \<times> video_player + video_player"

definition emit :: "level \<Rightarrow> string \<Rightarrow> video_player \<Rightarrow> video_player" where
  "emit l msg s = s\<lparr>logged := logged s @ [(l, msg)]\<rparr>"

subsection \<open>stop_video\<close>

definition stop_video :: "video_player \<Rightarrow> outcome" where
  "stop_video s =
     (let s1 = s\<lparr>is_playing := False\<rparr>;
          s2 = (case current_process s1 of
                  None \<Rightarrow> s1
                | Some p \<Rightarrow>
                    if poll_is_none p then
                      (case on_terminate p of
                         ExitsInTime \<Rightarrow> s1
                       | WaitTimesOut \<Rightarrow> s1
                       | TerminateRaises \<Rightarrow> emit ERROR ''Error stopping video'' s1)
                    else s1)
      in Inr (s2\<lparr>current_process := None\<rparr>))"

subsection \<open>play_video_pygame\<close>

text \<open>
  The test \<open>duration and elapsed >= duration\<close>: a duration that is \<open>None\<close> or zero
  is falsy and never ends the loop.
\<close>

definition duration_elapsed :: "real option \<Rightarrow> real \<Rightarrow> bool" where
  "duration_elapsed duration elapsed =
     (case duration of None \<Rightarrow> False | Some d \<Rightarrow> d \<noteq> 0 \<and> d \<le> elapsed)"

datatype loop_exit = DurationElapsed | Cancelled | BodyRaised

text \<open>
  The loop \<open>while self.is_playing\<close>, from its \<open>k\<close>-th iteration on. It may run for
  ever: not returning is the value \<open>None\<close>.
\<close>

partial_function (option) pygame_loop ::
    "video_env \<Rightarrow> real option \<Rightarrow> nat \<Rightarrow> loop_exit option" where
  "pygame_loop e duration k =
     (if duration_elapsed duration (now e k - start_time e) then Some DurationElapsed
      else if body_raises e k then Some BodyRaised
      else if esc_pressed e k then Some Cancelled
      else pygame_loop e duration (Suc k))"

definition play_video_pygame ::
    "video_env \<Rightarrow> video_player \<Rightarrow> string \<Rightarrow> real option \<Rightarrow> outcome option" where
  "play_video_pygame e s video_path duration =
     (let s1 = (emit INFO (''Pygame video placeholder for: '' @ basename video_path) s)
                 \<lparr>is_playing := True\<rparr>;
          failed = (emit ERROR ''Error in pygame video player'' s1)\<lparr>is_playing := False\<rparr>
      in if \<not> font_ok e then Some (Inr failed)
         else (case pygame_loop e duration 0 of
                 None \<Rightarrow> None
               | Some BodyRaised \<Rightarrow> Some (Inr failed)
               | Some DurationElapsed \<Rightarrow> Some (Inr (s1\<lparr>is_playing := False\<rparr>))
               | Some Cancelled \<Rightarrow> Some (Inr (s1\<lparr>is_playing := False\<rparr>))))"

subsection \<open>play_video_omxplayer and play_video_vlc\<close>

definition play_video_omxplayer ::
    "video_env \<Rightarrow> video_player \<Rightarrow> string \<Rightarrow> real option \<Rightarrow> outcome option" where
  "play_video_omxplayer e s video_path duration =
     (let s1 = emit INFO (''Starting OMXPlayer for: '' @ basename video_path) s in
      case popen e ''omxplayer'' of
        ExecutableMissing \<Rightarrow>
          play_video_pygame e
            (emit WARNING ''OMXPlayer not found, falling back to alternative method'' s1)
            video_path duration
      | LaunchFails \<Rightarrow>
          Some (Inr ((emit ERROR ''Error playing video with OMXPlayer'' s1)
                       \<lparr>is_playing := False\<rparr>))
      | Launched p \<Rightarrow>
          (let s2 = s1\<lparr>current_process := Some p, is_playing := True\<rparr> in
           case on_wait p of
             WaitReturns \<Rightarrow> Some (Inr (s2\<lparr>is_playing := False\<rparr>))
           | WaitRaises \<Rightarrow>
               Some (Inr ((emit ERROR ''Error playing video with OMXPlayer'' s2)
                            \<lparr>is_playing := False\<rparr>))))"

text \<open>
  The two arms of \<open>if duration\<close> in \<open>play_video_vlc\<close>, after the launch.
  \<open>time.sleep\<close> raises \<open>ValueError\<close> on a negative length.
\<close>

definition vlc_sleep_then_stop :: "real \<Rightarrow> video_player \<Rightarrow> outcome" where
  "vlc_sleep_then_stop d s =
     (if d < 0 then Inl (ValueError, s) else stop_video s)"

definition vlc_wait :: "process \<Rightarrow> video_player \<Rightarrow> outcome" where
  "vlc_wait p s = (case on_wait p of WaitReturns \<Rightarrow> Inr s | WaitRaises \<Rightarrow> Inl (OtherError, s))"

definition play_video_vlc ::
    "video_env \<Rightarrow> video_player \<Rightarrow> string \<Rightarrow> real option \<Rightarrow> outcome option" where
  "play_video_vlc e s video_path duration =
     (let s1 = emit INFO (''Starting VLC for: '' @ basename video_path) s in
      case popen e ''cvlc'' of
        ExecutableMissing \<Rightarrow>
          play_video_pygame e (emit WARNING ''VLC not found, falling back to pygame'' s1)
            video_path duration
      | LaunchFails \<Rightarrow>
          Some (Inr ((emit ERROR ''Error playing video with VLC'' s1)\<lparr>is_playing := False\<rparr>))
      | Launched p \<Rightarrow>
          (let s2 = s1\<lparr>current_process := Some p, is_playing := True\<rparr>;
               body = (case duration of
                         None \<Rightarrow> vlc_wait p s2
                       | Some d \<Rightarrow> if d \<noteq> 0 then vlc_sleep_then_stop d s2 else vlc_wait p s2)
           in case body of
                Inr s3 \<Rightarrow> Some (Inr (s3\<lparr>is_playing := False\<rparr>))
              | Inl (x, s3) \<Rightarrow>
                  Some (Inr ((emit ERROR ''Error playing video with VLC'' s3)
                               \<lparr>is_playing := False\<rparr>))))"

subsection \<open>play_video\<close>

text \<open>
  The nested \<open>try\<close> of \<open>play_video\<close>: VLC is called only when
  \<open>play_video_omxplayer\<close> raises, the placeholder only when \<open>play_video_vlc\<close>
  raises as well.
\<close>

definition play_video ::
    "video_env \<Rightarrow> video_player \<Rightarrow> string \<Rightarrow> real option \<Rightarrow> outcome option" where
  "play_video e s video_path duration =
     (if \<not> path_exists e video_path then
        Some (Inr (emit ERROR (''Video file not found: '' @ video_path) s))
      else
        (case play_video_omxplayer e s video_path duration of
           None \<Rightarrow> None
         | Some (Inr s1) \<Rightarrow> Some (Inr s1)
         | Some (Inl (x, s1)) \<Rightarrow>
             (case play_video_vlc e s1 video_path duration of
                None \<Rightarrow> None
              | Some (Inr s2) \<Rightarrow> Some (Inr s2)
              | Some (Inl (y, s2)) \<Rightarrow> play_video_pygame e s2 video_path duration)))"

subsection \<open>Sample environments\<close>

text \<open>A freshly constructed \<open>VideoPlayer\<close>, and one holding a running process.\<close>

definition fresh_player :: video_player where
  "fresh_player = \<lparr>is_playing = False, current_process = None, logged = []\<rparr>"

definition running_vlc :: process where
  "running_vlc = \<lparr>program = ''cvlc'', poll_is_none = True, on_wait = WaitReturns,
                   on_terminate = WaitTimesOut\<rparr>"

definition busy_player :: video_player where
  "busy_player = \<lparr>is_playing = True, current_process = Some running_vlc, logged = []\<rparr>"

text \<open>
  A machine without omxplayer on which VLC is installed; the clock advances a
  tenth of a second per iteration of the placeholder loop (its \<open>time.sleep(0.1)\<close>).
\<close>

definition env_vlc_only :: video_env where
  "env_vlc_only =
     \<lparr>path_exists = (\<lambda>p. p = ''ads/clip.mp4''),
      popen = (\<lambda>prog. if prog = ''omxplayer'' then ExecutableMissing else Launched running_vlc),
      font_ok = True,
      start_time = 0,
      now = (\<lambda>k. real k / 10),
      esc_pressed = (\<lambda>k. False),
      body_raises = (\<lambda>k. False)\<rparr>"


section \<open>ads_player.py: class AdsPlayer\<close>

subsection \<open>Configuration values\<close>

text \<open>
  A value read from the settings file. A Python \<open>dict\<close> is an association list in
  insertion order; \<open>map_of\<close> is its lookup. Floats are idealised as reals.
\<close>

datatype jv =
    JNull
  | JBool bool
  | JInt int
  | JFloat real
  | JStr string
  | JList "jv list"
  | JDict "(string \<times> jv) list"

type_synonym settings = "(string \<times> jv) list"

text \<open>Python's truth value of a configuration value.\<close>

fun truthy :: "jv \<Rightarrow> bool" where
  "truthy JNull = False"
| "truthy (JBool b) = b"
| "truthy (JInt n) = (n \<noteq> 0)"
| "truthy (JFloat r) = (r \<noteq> 0)"
| "truthy (JStr s) = (s \<noteq> [])"
| "truthy (JList xs) = (xs \<noteq> [])"
| "truthy (JDict kvs) = (kvs \<noteq> [])"

text \<open>
  \<open>x in v\<close> for a string \<open>x\<close>: membership in a list, substring of a string, key of
  a dict, \<open>TypeError\<close> for a value that is not a container.
\<close>

fun py_in :: "string \<Rightarrow> jv \<Rightarrow> exn + bool" where
  "py_in x (JList xs) = Inr (JStr x \<in> set xs)"
| "py_in x (JStr s) = Inr (sublist x s)"
| "py_in x (JDict kvs) = Inr (map_of kvs x \<noteq> None)"
| "py_in x JNull = Inl TypeError"
| "py_in x (JBool b) = Inl TypeError"
| "py_in x (JInt n) = Inl TypeError"
| "py_in x (JFloat r) = Inl TypeError"

subsection \<open>load_config\<close>

definition default_config :: settings where
  "default_config =
     [(''ads_directory'', JStr ''ads''),
      (''display_duration'', JInt 10),
      (''transition_effect'', JStr ''fade''),
      (''autodetect_orientation'', JBool True),
      (''force_orientation'', JNull),
      (''fullscreen'', JBool True),
      (''background_color'', JList [JInt 0, JInt 0, JInt 0]),
      (''supported_formats'',
         JList [JStr ''.jpg'', JStr ''.jpeg'', JStr ''.png'', JStr ''.bmp'',
                JStr ''.mp4'', JStr ''.avi'', JStr ''.mov'']),
      (''hardware_acceleration'', JBool True),
      (''fps'', JInt 30),
      (''volume'', JFloat (7 / 10)),
      (''loop_ads'', JBool True),
      (''shuffle_ads'', JBool False)]"

text \<open>
  The settings file as \<open>load_config\<close> meets it: absent; present but \<open>open\<close> raises;
  present with content that \<open>json.load\<close> rejects; or present with a JSON object,
  given as the \<open>dict\<close> that \<open>json.load\<close> returns. A settings file is a JSON object:
  a top-level value of another kind is outside this model.
\<close>

datatype config_file = Absent | Unreadable | Malformed | Parsed settings

text \<open>
  The loop \<open>for key, value in default_config.items()\<close>: a key the file lacks is
  added at the end of the \<open>dict\<close>, a key it has is left alone.
\<close>

definition merge_defaults :: "settings \<Rightarrow> settings" where
  "merge_defaults config =
     fold (\<lambda>(key, v) c. if map_of c key = None then c @ [(key, v)] else c)
       default_config config"

text \<open>
  Returns the configuration and the file as it is afterwards. An absent file is
  created with the defaults when the directory is writable (\<open>json.dump\<close>, read back
  by \<open>json.load\<close> as the same \<open>dict\<close>); every exception is caught and answered
  with the defaults.
\<close>

definition load_config :: "config_file \<Rightarrow> bool \<Rightarrow> settings \<times> config_file" where
  "load_config file writable =
     (case file of
        Parsed config \<Rightarrow> (merge_defaults config, file)
      | Malformed \<Rightarrow> (default_config, file)
      | Unreadable \<Rightarrow> (default_config, file)
      | Absent \<Rightarrow> (default_config, if writable then Parsed default_config else Absent))"

subsection \<open>The object\<close>

record ads_player =
  config :: settings
  running :: bool
  current_ad_index :: int
  ads_list :: "string list"
  screen_width :: int
  screen_height :: int
  orientation :: jv

subsection \<open>detect_screen_orientation\<close>

text \<open>
  \<open>display_info\<close> is what \<open>pygame.display.Info()\<close> reports as
  \<open>(current_w, current_h)\<close>, or \<open>None\<close> when the call raises. Every exception of
  the body, the division by a zero height included, ends in the fallback.
\<close>

definition detect_screen_orientation :: "(int \<times> int) option \<Rightarrow> ads_player \<Rightarrow> ads_player" where
  "detect_screen_orientation display_info s =
     (let fallback = s\<lparr>screen_width := 1920, screen_height := 1080, orientation := JStr ''16:9''\<rparr>;
          forced = (case map_of (config s) ''force_orientation'' of None \<Rightarrow> JNull | Some v \<Rightarrow> v)
      in if truthy forced then
           (if forced = JStr ''16:9''
            then s\<lparr>screen_width := 1920, screen_height := 1080, orientation := forced\<rparr>
            else s\<lparr>screen_width := 1080, screen_height := 1920, orientation := forced\<rparr>)
         else
           (case display_info of
              None \<Rightarrow> fallback
            | Some (w, h) \<Rightarrow>
                if h = 0 then fallback
                else s\<lparr>screen_width := w, screen_height := h,
                       orientation := (if real_of_int w / real_of_int h > 1
                                       then JStr ''16:9'' else JStr ''6:19'')\<rparr>))"

subsection \<open>load_ads_content\<close>

text \<open>
  \<open>Path(p).suffix\<close>: the last dot of the final component and what follows it, empty
  when the component has no dot, starts with its only dot or ends with it; and
  \<open>str.lower\<close> on ASCII letters.
\<close>

definition path_suffix :: "string \<Rightarrow> string" where
  "path_suffix p =
     (let name = basename p;
          ext = rev (takeWhile (\<lambda>c. c \<noteq> CHR ''.'') (rev name))
      in if CHR ''.'' \<in> set name \<and> ext \<noteq> [] \<and> Suc (length ext) < length name
         then CHR ''.'' # ext else [])"

definition lower_char :: "char \<Rightarrow> char" where
  "lower_char c =
     (case map_of (zip ''ABCDEFGHIJKLMNOPQRSTUVWXYZ'' ''abcdefghijklmnopqrstuvwxyz'') c of
        None \<Rightarrow> c
      | Some l \<Rightarrow> l)"

definition lower :: "string \<Rightarrow> string" where
  "lower s = map lower_char s"

text \<open>
  The disk: a directory path is mapped to its listing, the entries that
  \<open>iterdir\<close> yields in its order, each with \<open>str(file_path)\<close> and
  \<open>file_path.is_file()\<close>; a path that does not exist is mapped to \<open>None\<close>. A path
  that exists is a directory, and \<open>mkdir\<close> succeeds.
\<close>

type_synonym disk = "string \<Rightarrow> (string \<times> bool) list option"

type_synonym world = "ads_player \<times> disk"

text \<open>
  The loop over \<open>ads_dir.iterdir()\<close>, appending to \<open>self.ads_list\<close> in place: a
  raise leaves the entries appended so far.
\<close>

fun scan_entries :: "jv \<Rightarrow> (string \<times> bool) list \<Rightarrow> string list \<Rightarrow> exn \<times> string list + string list" where
  "scan_entries formats [] acc = Inr acc"
| "scan_entries formats ((path, is_file) # rest) acc =
     (if is_file then
        (case py_in (lower (path_suffix path)) formats of
           Inl x \<Rightarrow> Inl (x, acc)
         | Inr hit \<Rightarrow> scan_entries formats rest (if hit then acc @ [path] else acc))
      else scan_entries formats rest acc)"

text \<open>
  \<open>shuffle\<close> stands for \<open>random.shuffle\<close>: the permutation the generator picks.
\<close>

definition load_ads_content ::
    "(string list \<Rightarrow> string list) \<Rightarrow> world \<Rightarrow> exn \<times> world + world" where
  "load_ads_content shuffle w =
     (case w of (s, d) \<Rightarrow>
        (case map_of (config s) ''ads_directory'' of
           None \<Rightarrow> Inl (KeyError, w)
         | Some (JStr ads_dir) \<Rightarrow>
             (case d ads_dir of
                None \<Rightarrow> Inr (s, d(ads_dir := Some []))
              | Some entries \<Rightarrow>
                  (case map_of (config s) ''supported_formats'' of
                     None \<Rightarrow> Inl (KeyError, w)
                   | Some formats \<Rightarrow>
                       (case scan_entries formats entries [] of
                          Inl (x, found) \<Rightarrow> Inl (x, s\<lparr>ads_list := found\<rparr>, d)
                        | Inr found \<Rightarrow>
                            (case map_of (config s) ''shuffle_ads'' of
                               None \<Rightarrow> Inl (KeyError, s\<lparr>ads_list := found\<rparr>, d)
                             | Some flag \<Rightarrow>
                                 Inr (s\<lparr>ads_list := (if truthy flag then shuffle found
                                                       else found)\<rparr>, d)))))
         | Some other \<Rightarrow> Inl (TypeError, w)))"

subsection \<open>scale_image_to_fit\<close>



subsection \<open>display_current_ad, next_ad, handle_events\<close>

definition is_video_file :: "string \<Rightarrow> bool" where
  "is_video_file file_path =
     (lower (path_suffix file_path) \<in> set [''.mp4'', ''.avi'', ''.mov'', ''.mkv'', ''.wmv''])"

text \<open>\<open>xs[i]\<close>: a negative index counts from the end, an index out of range raises.\<close>

definition py_index :: "'a list \<Rightarrow> int \<Rightarrow> exn + 'a" where
  "py_index xs i =
     (if 0 \<le> i \<and> i < int (length xs) then Inr (xs ! nat i)
      else if i < 0 \<and> 0 \<le> i + int (length xs) then Inr (xs ! nat (i + int (length xs)))
      else Inl IndexError)"

text \<open>
  What \<open>display_current_ad\<close> puts on the screen: the message for an empty list, or
  the current entry through \<open>display_video\<close> or \<open>display_image\<close> (both catch every
  exception of their own).
\<close>

datatype shown = NoAdsAvailable | Video string | Image string

definition display_current_ad :: "ads_player \<Rightarrow> exn + shown" where
  "display_current_ad s =
     (if ads_list s = [] then Inr NoAdsAvailable
      else
        (case py_index (ads_list s) (current_ad_index s) of
           Inl x \<Rightarrow> Inl x
         | Inr current_ad \<Rightarrow>
             Inr (if is_video_file current_ad then Video current_ad else Image current_ad)))"

definition next_ad :: "ads_player \<Rightarrow> ads_player" where
  "next_ad s =
     (if ads_list s \<noteq> [] then
        s\<lparr>current_ad_index := (current_ad_index s + 1) mod int (length (ads_list s))\<rparr>
      else s)"

datatype key = K_ESCAPE | K_q | K_SPACE | K_r | K_s | K_other

datatype event = QUIT | KEYDOWN key | OtherEvent

definition handle_event ::
    "(string list \<Rightarrow> string list) \<Rightarrow> event \<Rightarrow> world \<Rightarrow> exn \<times> world + world" where
  "handle_event shuffle ev w =
     (case w of (s, d) \<Rightarrow>
        (case ev of
           QUIT \<Rightarrow> Inr (s\<lparr>running := False\<rparr>, d)
         | KEYDOWN K_ESCAPE \<Rightarrow> Inr (s\<lparr>running := False\<rparr>, d)
         | KEYDOWN K_q \<Rightarrow> Inr (s\<lparr>running := False\<rparr>, d)
         | KEYDOWN K_SPACE \<Rightarrow> Inr (next_ad s, d)
         | KEYDOWN K_r \<Rightarrow> load_ads_content shuffle w
         | KEYDOWN K_s \<Rightarrow>
             Inr (if ads_list s \<noteq> []
                  then s\<lparr>ads_list := shuffle (ads_list s), current_ad_index := 0\<rparr>
                  else s, d)
         | KEYDOWN K_other \<Rightarrow> Inr w
         | OtherEvent \<Rightarrow> Inr w))"

text \<open>The loop over \<open>pygame.event.get()\<close>: a raise abandons the remaining events.\<close>

fun handle_events ::
    "(string list \<Rightarrow> string list) \<Rightarrow> event list \<Rightarrow> world \<Rightarrow> exn \<times> world + world" where
  "handle_events shuffle [] w = Inr w"
| "handle_events shuffle (ev # evs) w =
     (case handle_event shuffle ev w of
        Inl x \<Rightarrow> Inl x
      | Inr w' \<Rightarrow> handle_events shuffle evs w')"

text \<open>The index invariant of the scheduler.\<close>

definition index_in_range :: "ads_player \<Rightarrow> bool" where
  "index_in_range s = (0 \<le> current_ad_index s \<and> current_ad_index s < int (length (ads_list s)))"

subsection \<open>Sample players and disks\<close>


text \<open>A player showing the last of three ads.\<close>

definition three_ads_player :: ads_player where
  "three_ads_player =
     \<lparr>config = default_config, running = True, current_ad_index = 2,
      ads_list = [''ads/a.png'', ''ads/b.png'', ''ads/c.mp4''],
      screen_width = 1920, screen_height = 1080, orientation = JStr ''16:9''\<rparr>"

text \<open>The ads directory after two of the three files were removed.\<close>

definition disk_one_ad :: disk where
  "disk_one_ad = (\<lambda>p. if p = ''ads'' then Some [(''ads/a.png'', True)] else None)"

text \<open>A disk on which the ads directory was removed altogether.\<close>

definition disk_no_ads_dir :: disk where
  "disk_no_ads_dir = (\<lambda>p. None)"

text \<open>
  A settings file that forces the portrait orientation and sets the frame rate,
  and the player as \<open>__init__\<close> has it after \<open>load_config\<close> on that file, before
  \<open>detect_screen_orientation\<close> runs.
\<close>

definition portrait_settings_file :: config_file where
  "portrait_settings_file = Parsed [(''force_orientation'', JStr ''6:19''), (''fps'', JInt 60)]"

definition forced_portrait_player :: ads_player where
  "forced_portrait_player =
     \<lparr>config = fst (load_config portrait_settings_file True), running = False,
      current_ad_index = 0, ads_list = [], screen_width = 0, screen_height = 0,
      orientation = JStr ''16:9''\<rparr>"

section \<open>The placeholder loop\<close>




section \<open>No method of VideoPlayer raises\<close>





text \<open>
  C1. On a machine without omxplayer but with VLC, \<open>play_video\<close> goes from the
  failed omxplayer launch straight to the placeholder: no line of \<open>play_video_vlc\<close>
  is logged and no process is launched, although the comments of \<open>play_video\<close>
  announce VLC as the second choice.
\<close>

theorem play_video_skips_vlc:
  "popen env_vlc_only ''cvlc'' = Launched running_vlc \<and>
   play_video env_vlc_only fresh_player ''ads/clip.mp4'' (Some 1) =
     Some (Inr \<lparr>is_playing = False, current_process = None,
                logged = [(INFO, ''Starting OMXPlayer for: clip.mp4''),
                          (WARNING, ''OMXPlayer not found, falling back to alternative method''),
                          (INFO, ''Pygame video placeholder for: clip.mp4'')]\<rparr>)"
  by (simp add: play_video_def play_video_omxplayer_def play_video_pygame_def
      pygame_loop.simps env_vlc_only_def fresh_player_def emit_def basename_def
      duration_elapsed_def Let_def)




section \<open>stop_video\<close>

text \<open>
  C9. With no process held, \<open>stop_video\<close> returns normally and changes nothing but
  the flag, which it clears. After any call both the flag and the handle are
  cleared, whatever the process did on termination, and a second call changes
  nothing more.
\<close>

theorem stop_video_idempotent:
  "(current_process s = None \<longrightarrow> stop_video s = Inr (s\<lparr>is_playing := False\<rparr>)) \<and>
   (\<exists>s'. stop_video s = Inr s' \<and> \<not> is_playing s' \<and> current_process s' = None \<and>
         stop_video s' = Inr s')"
  by (cases s)
     (auto simp: stop_video_def emit_def Let_def
       split: option.splits terminate_outcome.splits)

theorem stop_video_idempotent_witness:
  "current_process fresh_player = None \<and>
   stop_video fresh_player = Inr fresh_player \<and>
   stop_video busy_player = Inr fresh_player \<and>
   stop_video fresh_player = Inr fresh_player"
  using stop_video_idempotent [of fresh_player] stop_video_idempotent [of busy_player]
  by (simp add: stop_video_def fresh_player_def busy_player_def running_vlc_def Let_def)

section \<open>A video file that does not exist\<close>

text \<open>
  C10. For a path that does not exist, \<open>play_video\<close> returns at once: the flag and
  the process handle are as before, and the only line logged is the error about
  the missing file, so no backend was started.
\<close>

theorem play_video_missing_file:
  assumes "\<not> path_exists e p"
  shows "play_video e s p d =
           Some (Inr (s\<lparr>logged := logged s @ [(ERROR, ''Video file not found: '' @ p)]\<rparr>))"
  using assms by (simp add: play_video_def emit_def)

theorem play_video_missing_file_witness:
  "\<not> path_exists env_vlc_only ''ads/gone.mp4'' \<and>
   play_video env_vlc_only fresh_player ''ads/gone.mp4'' (Some 10) =
     Some (Inr \<lparr>is_playing = False, current_process = None,
                logged = [(ERROR, ''Video file not found: ads/gone.mp4'')]\<rparr>)"
  using play_video_missing_file [of env_vlc_only "''ads/gone.mp4''" fresh_player "Some 10"]
  by (simp add: env_vlc_only_def fresh_player_def)

section \<open>The scheduler's index\<close>

lemma next_ad_list [simp]: "ads_list (next_ad s) = ads_list s"
  by (simp add: next_ad_def)

lemma funpow_next_ad_list [simp]: "ads_list ((next_ad ^^ k) s) = ads_list s"
  by (induction k) simp_all

lemma funpow_next_ad_index:
  assumes "ads_list s \<noteq> []" and "0 \<le> current_ad_index s"
    and "current_ad_index s < int (length (ads_list s))"
  shows "current_ad_index ((next_ad ^^ k) s) =
           (current_ad_index s + int k) mod int (length (ads_list s))"
proof (induction k)
  case 0
  from assms show ?case by simp
next
  case (Suc k)
  have "current_ad_index ((next_ad ^^ Suc k) s) =
          (current_ad_index ((next_ad ^^ k) s) + 1) mod int (length (ads_list s))"
    using assms(1) by (simp add: next_ad_def)
  also have "\<dots> = (current_ad_index s + int k + 1) mod int (length (ads_list s))"
    by (simp add: Suc.IH mod_add_left_eq)
  also have "\<dots> = (current_ad_index s + int (Suc k)) mod int (length (ads_list s))"
    by (simp add: ac_simps)
  finally show ?case .
qed

lemma shifted_mod_inj:
  fixes i :: int and n :: nat
  shows "inj_on (\<lambda>k. (i + int k) mod int n) {0..<n}"
proof (rule inj_onI)
  fix a b assume a: "a \<in> {0..<n}" and b: "b \<in> {0..<n}"
    and eq: "(i + int a) mod int n = (i + int b) mod int n"
  from eq have "int n dvd (i + int a) - (i + int b)"
    by (simp add: mod_eq_dvd_iff)
  then have d: "int n dvd int a - int b" by simp
  have "\<bar>int a - int b\<bar> < int n" using a b by auto
  with d have "int a - int b = 0"
    using zdvd_not_zless [of "\<bar>int a - int b\<bar>" "int n"] by (cases "int a - int b = 0") auto
  then show "a = b" by simp
qed

lemma shifted_mod_image:
  fixes i :: int and n :: nat
  assumes "0 < n"
  shows "(\<lambda>k. (i + int k) mod int n) ` {0..<n} = {0..<int n}"
proof (rule card_subset_eq)
  show "finite {0..<int n}" by simp
  show "(\<lambda>k. (i + int k) mod int n) ` {0..<n} \<subseteq> {0..<int n}"
    using assms by auto
  have "card ((\<lambda>k. (i + int k) mod int n) ` {0..<n}) = card {0..<n}"
    by (rule card_image) (rule shifted_mod_inj)
  then show "card ((\<lambda>k. (i + int k) mod int n) ` {0..<n}) = card {0..<int n}"
    by simp
qed

text \<open>
  C5. On a non-empty playlist with the index in range, \<open>next_ad\<close> takes the index
  \<open>i\<close> to \<open>(i + 1) mod len\<close>; the indices shown during \<open>len\<close> advances (the one
  before the first advance, and the one after each advance but the last) are
  pairwise different and are exactly \<open>0 .. len - 1\<close>, and the \<open>len\<close>-th advance is
  back at \<open>i\<close>. On an empty playlist \<open>next_ad\<close> changes nothing.
\<close>

theorem next_ad_cycles:
  "(ads_list s \<noteq> [] \<and> 0 \<le> current_ad_index s \<and>
    current_ad_index s < int (length (ads_list s)) \<longrightarrow>
      current_ad_index (next_ad s) = (current_ad_index s + 1) mod int (length (ads_list s)) \<and>
      distinct (map (\<lambda>k. current_ad_index ((next_ad ^^ k) s)) [0..<length (ads_list s)]) \<and>
      set (map (\<lambda>k. current_ad_index ((next_ad ^^ k) s)) [0..<length (ads_list s)])
        = {0..<int (length (ads_list s))} \<and>
      current_ad_index ((next_ad ^^ length (ads_list s)) s) = current_ad_index s) \<and>
   (ads_list s = [] \<longrightarrow> next_ad s = s)"
proof (intro conjI impI)
  assume "ads_list s = []"
  then show "next_ad s = s" by (simp add: next_ad_def)
next
  assume h: "ads_list s \<noteq> [] \<and> 0 \<le> current_ad_index s \<and>
             current_ad_index s < int (length (ads_list s))"
  let ?n = "length (ads_list s)"
  let ?i = "current_ad_index s"
  from h have n: "0 < ?n" by simp
  have idx: "current_ad_index ((next_ad ^^ k) s) = (?i + int k) mod int ?n" for k
    using h by (simp add: funpow_next_ad_index)
  have same: "map (\<lambda>k. current_ad_index ((next_ad ^^ k) s)) [0..<?n]
                = map (\<lambda>k. (?i + int k) mod int ?n) [0..<?n]"
    by (simp add: idx)
  show "current_ad_index (next_ad s) = (?i + 1) mod int ?n"
    using h by (simp add: next_ad_def)
  show "distinct (map (\<lambda>k. current_ad_index ((next_ad ^^ k) s)) [0..<?n])"
    unfolding same using shifted_mod_inj [of ?i ?n]
    by (simp add: distinct_map)
  show "set (map (\<lambda>k. current_ad_index ((next_ad ^^ k) s)) [0..<?n]) = {0..<int ?n}"
    unfolding same using shifted_mod_image [OF n, of ?i]
    by simp
  show "current_ad_index ((next_ad ^^ ?n) s) = ?i"
    using h by (simp add: idx)
qed

theorem next_ad_cycles_witness:
  "ads_list three_ads_player \<noteq> [] \<and>
   current_ad_index three_ads_player = 2 \<and>
   length (ads_list three_ads_player) = 3 \<and>
   current_ad_index (next_ad three_ads_player) = 0 \<and>
   map (\<lambda>k. current_ad_index ((next_ad ^^ k) three_ads_player)) [0..<3] = [2, 0, 1] \<and>
   current_ad_index ((next_ad ^^ 3) three_ads_player) = 2"
  using next_ad_cycles [of three_ads_player]
  by (simp add: three_ads_player_def next_ad_def eval_nat_numeral upt_rec)

section \<open>Settings\<close>

lemma map_of_fold_defaults:
  "map_of (fold (\<lambda>(key, v) c. if map_of c key = None then c @ [(key, v)] else c) ds c) k =
     (case map_of c k of Some v \<Rightarrow> Some v | None \<Rightarrow> map_of ds k)"
proof (induction ds arbitrary: c)
  case Nil
  show ?case by (simp split: option.splits)
next
  case (Cons a ds)
  obtain key v where a: "a = (key, v)" by (cases a)
  show ?case
    by (simp add: a Cons.IH map_add_def split: option.splits)
qed

lemma map_of_merge_defaults:
  "map_of (merge_defaults cfg) k =
     (case map_of cfg k of Some v \<Rightarrow> Some v | None \<Rightarrow> map_of default_config k)"
  by (simp add: merge_defaults_def map_of_fold_defaults)

lemma merge_defaults_empty: "merge_defaults [] = default_config"
  by (simp add: merge_defaults_def default_config_def)

text \<open>
  C8. Loading a settings file that holds a JSON object keeps the value of every
  key the file has and gives every other key its default; loading \<open>{}\<close> yields
  exactly the default table; a file that cannot be parsed, or cannot be read, or
  is absent, yields the default table as well.
\<close>

theorem load_config_backfills:
  "map_of (fst (load_config (Parsed file) w)) k =
     (case map_of file k of Some v \<Rightarrow> Some v | None \<Rightarrow> map_of default_config k) \<and>
   fst (load_config (Parsed []) w) = default_config \<and>
   fst (load_config Malformed w) = default_config \<and>
   fst (load_config Unreadable w) = default_config \<and>
   fst (load_config Absent w) = default_config"
  by (simp add: load_config_def map_of_merge_defaults merge_defaults_empty)

theorem load_config_backfills_witness:
  "map_of (fst (load_config portrait_settings_file True)) ''fps'' = Some (JInt 60) \<and>
   map_of (fst (load_config portrait_settings_file True)) ''force_orientation'' = Some (JStr ''6:19'') \<and>
   map_of (fst (load_config portrait_settings_file True)) ''display_duration'' = Some (JInt 10) \<and>
   map_of (fst (load_config portrait_settings_file True)) ''ads_directory'' = Some (JStr ''ads'')"
  using load_config_backfills [of "[(''force_orientation'', JStr ''6:19''), (''fps'', JInt 60)]" True]
  by (simp add: portrait_settings_file_def default_config_def)

section \<open>Orientation\<close>

text \<open>
  C7. When the settings force the portrait orientation (\<open>6:19\<close> in the code),
  \<open>detect_screen_orientation\<close> sets the resolution to 1080 by 1920, and when they
  force landscape (\<open>16:9\<close>) to 1920 by 1080, whatever the display reports and also
  when the display cannot be queried.
\<close>

theorem forced_orientation_fixes_resolution:
  "(map_of (config s) ''force_orientation'' = Some (JStr ''6:19'') \<longrightarrow>
      screen_width (detect_screen_orientation detected s) = 1080 \<and>
      screen_height (detect_screen_orientation detected s) = 1920 \<and>
      orientation (detect_screen_orientation detected s) = JStr ''6:19'') \<and>
   (map_of (config s) ''force_orientation'' = Some (JStr ''16:9'') \<longrightarrow>
      screen_width (detect_screen_orientation detected s) = 1920 \<and>
      screen_height (detect_screen_orientation detected s) = 1080 \<and>
      orientation (detect_screen_orientation detected s) = JStr ''16:9'')"
  by (simp add: detect_screen_orientation_def Let_def)

theorem forced_orientation_fixes_resolution_witness:
  "map_of (config forced_portrait_player) ''force_orientation'' = Some (JStr ''6:19'') \<and>
   screen_width (detect_screen_orientation (Some (1920, 1080)) forced_portrait_player) = 1080 \<and>
   screen_height (detect_screen_orientation (Some (1920, 1080)) forced_portrait_player) = 1920 \<and>
   screen_width (detect_screen_orientation None forced_portrait_player) = 1080 \<and>
   screen_height (detect_screen_orientation None forced_portrait_player) = 1920"
  using forced_orientation_fixes_resolution [of forced_portrait_player "Some (1920, 1080)"]
    forced_orientation_fixes_resolution [of forced_portrait_player None]
  by (simp add: forced_portrait_player_def portrait_settings_file_def load_config_def
      map_of_merge_defaults)

section \<open>Scaling\<close>



section \<open>Reloading the playlist\<close>

text \<open>
  What \<open>load_ads_content\<close> does when the ads directory does not exist: it creates
  the directory and returns before \<open>self.ads_list\<close> is assigned, so the playlist is
  the one the player already had (the empty one at start-up).
\<close>

lemma load_ads_content_missing_directory:
  assumes "map_of (config s) ''ads_directory'' = Some (JStr dir)" and "d dir = None"
  shows "load_ads_content shuffle (s, d) = Inr (s, d(dir := Some []))"
  using assms by (simp add: load_ads_content_def)

lemma next_ad_keeps_index_in_range:
  "ads_list s \<noteq> [] \<Longrightarrow> index_in_range (next_ad s)"
  by (simp add: next_ad_def index_in_range_def)

lemma shuffle_key_keeps_index_in_range:
  assumes "ads_list s \<noteq> []" and "length (shuffle (ads_list s)) = length (ads_list s)"
    and "handle_event shuffle (KEYDOWN K_s) (s, d) = Inr (s', d')"
  shows "index_in_range s'"
  using assms by (auto simp: handle_event_def index_in_range_def)

text \<open>
  C3. A reload (the \<open>r\<close> key) while the ads directory does not exist creates the
  directory, but the playlist of three entries is still there afterwards.
\<close>

theorem reload_without_directory_keeps_playlist:
  "disk_no_ads_dir ''ads'' = None \<and>
   handle_events rev [KEYDOWN K_r] (three_ads_player, disk_no_ads_dir) =
     Inr (three_ads_player, disk_no_ads_dir(''ads'' := Some [])) \<and>
   ads_list three_ads_player = [''ads/a.png'', ''ads/b.png'', ''ads/c.mp4'']"
  by (simp add: handle_event_def load_ads_content_def three_ads_player_def
      disk_no_ads_dir_def default_config_def)

text \<open>
  C2. A reload after two of three files were removed leaves the index at 2 with a
  playlist of one entry: the index is out of range, and \<open>display_current_ad\<close>
  raises \<open>IndexError\<close>.
\<close>

theorem reload_leaves_index_out_of_range:
  "index_in_range three_ads_player \<and>
   handle_events rev [KEYDOWN K_r] (three_ads_player, disk_one_ad) =
     Inr (three_ads_player\<lparr>ads_list := [''ads/a.png'']\<rparr>, disk_one_ad) \<and>
   \<not> index_in_range (three_ads_player\<lparr>ads_list := [''ads/a.png'']\<rparr>) \<and>
   display_current_ad (three_ads_player\<lparr>ads_list := [''ads/a.png'']\<rparr>) = Inl IndexError"
  by (simp add: handle_event_def load_ads_content_def three_ads_player_def
      disk_one_ad_def default_config_def index_in_range_def display_current_ad_def
      py_index_def path_suffix_def basename_def lower_def lower_char_def)

end
